theory Spec2Isabelle
  imports Complex_Main
begin

section \<open>Python values and exceptions\<close>

text \<open>
  The external inference service answers with JSON, which the client library hands to the
  program as Python values: \<open>None\<close>, booleans, numbers, strings, lists and dictionaries with
  string keys. A dictionary is an association list read with \<open>map_of\<close>.
\<close>

datatype pyval =
    PNone
  | PBool bool
  | PInt int
  | PFloat real
  | PStr string
  | PList "pyval list"
  | PDict "(string \<times> pyval) list"

text \<open>Python's truth value of an object, as \<open>if x:\<close> and \<open>a if x else b\<close> test it.\<close>

fun truthy :: "pyval \<Rightarrow> bool" where
  "truthy PNone = False"
| "truthy (PBool b) = b"
| "truthy (PInt n) = (n \<noteq> 0)"
| "truthy (PFloat x) = (x \<noteq> 0)"
| "truthy (PStr s) = (s \<noteq> [])"
| "truthy (PList xs) = (xs \<noteq> [])"
| "truthy (PDict kvs) = (kvs \<noteq> [])"

text \<open>An optional string (\<open>None\<close> or a \<open>str\<close>) is true when it is a non-empty string.\<close>

fun str_truthy :: "string option \<Rightarrow> bool" where
  "str_truthy None = False"
| "str_truthy (Some s) = (s \<noteq> [])"

fun type_name :: "pyval \<Rightarrow> string" where
  "type_name PNone = ''NoneType''"
| "type_name (PBool b) = ''bool''"
| "type_name (PInt n) = ''int''"
| "type_name (PFloat x) = ''float''"
| "type_name (PStr s) = ''str''"
| "type_name (PList xs) = ''list''"
| "type_name (PDict kvs) = ''dict''"

text \<open>
  An exception is either the framework's \<open>HTTPException(status_code, detail)\<close> or any
  other exception, kept as its class name and the text \<open>str(e)\<close> gives.
\<close>

datatype exn =
    HTTPException nat string
  | Error string string

fun digit_char :: "nat \<Rightarrow> char" where
  "digit_char n = ''0123456789'' ! (n mod 10)"

fun str_nat :: "nat \<Rightarrow> string" where
  "str_nat n = (if n < 10 then [digit_char n] else str_nat (n div 10) @ [digit_char n])"

declare str_nat.simps [simp del]

text \<open>\<open>str(e)\<close>; the framework prints an \<open>HTTPException\<close> as \<open>status_code: detail\<close>.\<close>

fun str_exn :: "exn \<Rightarrow> string" where
  "str_exn (HTTPException code detail) = str_nat code @ '': '' @ detail"
| "str_exn (Error cls msg) = msg"

text \<open>\<open>v.get(key, default)\<close>: only a dictionary has the method.\<close>

fun py_get :: "pyval \<Rightarrow> string \<Rightarrow> pyval \<Rightarrow> exn + pyval" where
  "py_get (PDict kvs) key dflt = Inr (case map_of kvs key of None \<Rightarrow> dflt | Some v \<Rightarrow> v)"
| "py_get v key dflt =
     Inl (Error ''AttributeError'' (CHR 0x27 # type_name v @ ''' object has no attribute 'get'' @ [CHR 0x27]))"

text \<open>
  \<open>v[0]\<close>: the first element of a list, the first character of a string; a dictionary
  decoded from JSON has string keys only, so the key \<open>0\<close> is missing; nothing else can
  be subscripted.
\<close>

fun py_index0 :: "pyval \<Rightarrow> exn + pyval" where
  "py_index0 (PList []) = Inl (Error ''IndexError'' ''list index out of range'')"
| "py_index0 (PList (x # xs)) = Inr x"
| "py_index0 (PStr []) = Inl (Error ''IndexError'' ''string index out of range'')"
| "py_index0 (PStr (c # cs)) = Inr (PStr [c])"
| "py_index0 (PDict kvs) = Inl (Error ''KeyError'' ''0'')"
| "py_index0 v = Inl (Error ''TypeError'' (CHR 0x27 # type_name v @ ''' object is not subscriptable''))"

section \<open>The external inference service client (fal\_api.py)\<close>

text \<open>
  What \<open>fal_client.status\<close> returns is told apart by its class only: \<open>Completed\<close>,
  \<open>InProgress\<close>, \<open>Queued\<close>, or anything else.
\<close>

datatype fal_status = Completed | InProgress | Queued | OtherStatus

text \<open>
  The external service at one moment: what each of the three calls of \<open>fal_client\<close>
  would answer, an exception (\<open>Inl\<close>) or a value. \<open>status\<close> and \<open>result\<close> take the
  application (a nullable column of the job row) and the request id.
\<close>

record fal_world =
  fal_submit :: "string \<Rightarrow> (string \<times> pyval) list \<Rightarrow> exn + string"
  fal_status :: "string option \<Rightarrow> string \<Rightarrow> exn + fal_status"
  fal_result :: "string option \<Rightarrow> string \<Rightarrow> exn + pyval"

text \<open>
  The calls a run makes, in order: \<open>PollStatus\<close> marks an invocation of the client's
  \<open>check_job_status\<close>, \<open>FalSubmit\<close>, \<open>FalStatus\<close> and \<open>FalResult\<close> the requests that
  reach the external service, \<open>Sleep\<close> an \<open>asyncio.sleep\<close> of that many seconds.
\<close>

datatype event =
    FalSubmit string
  | PollStatus string "string option"
  | FalStatus "string option" string
  | FalResult "string option" string
  | Sleep nat

text \<open>
  The expression
  \<^verbatim>\<open>result.get("images", [{}])[0].get("url") if result.get("images") else None\<close>
  of both result branches of \<open>check_job_status\<close>. The condition is evaluated first.
\<close>

definition result_url_of :: "pyval \<Rightarrow> exn + pyval" where
  "result_url_of result =
     (case py_get result ''images'' PNone of
        Inl e \<Rightarrow> Inl e
      | Inr cond \<Rightarrow>
          if truthy cond then
            (case py_get result ''images'' (PList [PDict []]) of
               Inl e \<Rightarrow> Inl e
             | Inr images \<Rightarrow>
                 (case py_index0 images of
                    Inl e \<Rightarrow> Inl e
                  | Inr first_image \<Rightarrow> py_get first_image ''url'' PNone))
          else Inr PNone)"

text \<open>
  The dictionary \<open>check_job_status\<close> returns. Every return site gives it the key
  \<open>status\<close>; \<open>sr_result_url\<close> is what \<open>.get("result_url")\<close> reads (\<open>PNone\<close> when the
  key is absent or holds \<open>None\<close>); \<open>sr_other\<close> holds the remaining keys.
\<close>

record status_result =
  sr_status :: string
  sr_result_url :: pyval
  sr_other :: "(string \<times> pyval) list"

text \<open>The dictionary \<open>submit_fal_job\<close> returns.\<close>

record submit_result =
  request_id :: string
  submit_status :: string
  submit_application :: string

subsection \<open>base64\<close>

definition b64_alphabet :: string where
  "b64_alphabet = ''ABCDEFGHIJKLMNOPQRSTUVWXYZabcdefghijklmnopqrstuvwxyz0123456789+/''"

definition b64_char :: "nat \<Rightarrow> char" where
  "b64_char n = b64_alphabet ! (n mod 64)"

text \<open>\<open>base64.b64encode(bytes).decode('utf-8')\<close>; a byte is a \<open>char\<close>.\<close>

fun b64encode :: "string \<Rightarrow> string" where
  "b64encode [] = []"
| "b64encode [a] =
     (let n = of_char a * 65536
      in [b64_char (n div 262144), b64_char (n div 4096), CHR ''='', CHR ''=''])"
| "b64encode [a, b] =
     (let n = of_char a * 65536 + of_char b * 256
      in [b64_char (n div 262144), b64_char (n div 4096), b64_char (n div 64), CHR ''=''])"
| "b64encode (a # b # c # rest) =
     (let n = of_char a * 65536 + of_char b * 256 + of_char c
      in [b64_char (n div 262144), b64_char (n div 4096), b64_char (n div 64), b64_char n]
         @ b64encode rest)"

definition data_url :: "string \<Rightarrow> string" where
  "data_url image_bytes = ''data:image/jpeg;base64,'' @ b64encode image_bytes"

subsection \<open>submit\_fal\_job\<close>

text \<open>
  \<open>FAL_API_KEY\<close> is \<open>os.getenv("FAL_KEY")\<close>: \<open>None\<close> or a string. \<open>image_bytes\<close> is
  \<open>None\<close> or the bytes read from the upload; empty bytes are false, as \<open>None\<close> is.
  The first raise stands outside the \<open>try\<close>; every exception inside it is wrapped.
\<close>

definition submit_fal_job ::
  "string option \<Rightarrow> fal_world \<Rightarrow> string \<Rightarrow> string option \<Rightarrow> (exn + submit_result) \<times> event list" where
  "submit_fal_job FAL_API_KEY w prompt_text image_bytes =
     (if \<not> str_truthy FAL_API_KEY then
        (Inl (HTTPException 500 ''FAL API key not configured''), [])
      else
        let (endpoint, arguments) =
              (if str_truthy image_bytes then
                 (''fal-ai/nano-banana/edit'',
                  [(''prompt'', PStr prompt_text),
                   (''image_urls'', PList [PStr (data_url (case image_bytes of Some b \<Rightarrow> b | None \<Rightarrow> []))]),
                   (''num_images'', PInt 1),
                   (''output_format'', PStr ''jpeg'')])
               else
                 (''fal-ai/nano-banana'',
                  [(''prompt'', PStr prompt_text),
                   (''num_images'', PInt 1),
                   (''output_format'', PStr ''jpeg''),
                   (''aspect_ratio'', PStr ''1:1'')]))
        in (case fal_submit w endpoint arguments of
              Inl e \<Rightarrow>
                (Inl (HTTPException 500 (''Failed to submit job to AI service: '' @ str_exn e)),
                 [FalSubmit endpoint])
            | Inr handler_request_id \<Rightarrow>
                (Inr \<lparr>request_id = handler_request_id, submit_status = ''submitted'',
                      submit_application = endpoint\<rparr>,
                 [FalSubmit endpoint])))"

subsection \<open>check\_job\_status (the poll)\<close>

definition completed_but_unavailable :: "exn \<Rightarrow> status_result" where
  "completed_but_unavailable result_error =
     \<lparr>sr_status = ''failed'', sr_result_url = PNone,
      sr_other = [(''error'', PStr (''Job marked as completed but result unavailable: ''
                                     @ str_exn result_error))]\<rparr>"

definition description_of :: "pyval \<Rightarrow> pyval" where
  "description_of result = (case py_get result ''description'' (PStr []) of Inr d \<Rightarrow> d | Inl e \<Rightarrow> PStr [])"

definition fal_api_check_job_status ::
  "string option \<Rightarrow> fal_world \<Rightarrow> string \<Rightarrow> string option \<Rightarrow> (exn + status_result) \<times> event list" where
  "fal_api_check_job_status FAL_API_KEY w req application_name =
     (if \<not> str_truthy FAL_API_KEY then
        (Inl (HTTPException 500 ''FAL API key not configured''), [PollStatus req application_name])
      else
        (case fal_status w application_name req of
           Inr current_status \<Rightarrow>
             (case current_status of
                Completed \<Rightarrow>
                  (case fal_result w application_name req of
                     Inl result_error \<Rightarrow>
                       (Inr (completed_but_unavailable result_error),
                        [PollStatus req application_name, FalStatus application_name req,
                         FalResult application_name req])
                   | Inr result \<Rightarrow>
                       (case result_url_of result of
                          Inl result_error \<Rightarrow>
                            (Inr (completed_but_unavailable result_error),
                             [PollStatus req application_name, FalStatus application_name req,
                              FalResult application_name req])
                        | Inr url \<Rightarrow>
                            (Inr \<lparr>sr_status = ''completed'', sr_result_url = url,
                                  sr_other = [(''description'', description_of result),
                                              (''result_data'', result)]\<rparr>,
                             [PollStatus req application_name, FalStatus application_name req,
                              FalResult application_name req])))
              | InProgress \<Rightarrow>
                  (Inr \<lparr>sr_status = ''processing'', sr_result_url = PNone,
                        sr_other = [(''message'', PStr ''Job is currently being processed'')]\<rparr>,
                   [PollStatus req application_name, FalStatus application_name req])
              | Queued \<Rightarrow>
                  (Inr \<lparr>sr_status = ''queued'', sr_result_url = PNone,
                        sr_other = [(''message'', PStr ''Job is in queue waiting to start'')]\<rparr>,
                   [PollStatus req application_name, FalStatus application_name req])
              | OtherStatus \<Rightarrow>
                  (Inr \<lparr>sr_status = ''pending'', sr_result_url = PNone,
                        sr_other = [(''message'', PStr ''Job status: pending'')]\<rparr>,
                   [PollStatus req application_name, FalStatus application_name req]))
         | Inl e \<Rightarrow>
             (case fal_result w application_name req of
                Inl result_error \<Rightarrow>
                  (Inr \<lparr>sr_status = ''pending'', sr_result_url = PNone,
                        sr_other = [(''error'', PStr (''Unable to determine job status: '' @ str_exn e))]\<rparr>,
                   [PollStatus req application_name, FalStatus application_name req,
                    FalResult application_name req])
              | Inr result \<Rightarrow>
                  (case result_url_of result of
                     Inl result_error \<Rightarrow>
                       (Inr \<lparr>sr_status = ''pending'', sr_result_url = PNone,
                             sr_other = [(''error'', PStr (''Unable to determine job status: '' @ str_exn e))]\<rparr>,
                        [PollStatus req application_name, FalStatus application_name req,
                         FalResult application_name req])
                   | Inr url \<Rightarrow>
                       (Inr \<lparr>sr_status = ''completed'', sr_result_url = url,
                             sr_other = [(''description'', description_of result)]\<rparr>,
                        [PollStatus req application_name, FalStatus application_name req,
                         FalResult application_name req])))))"

section \<open>The job store (models.py)\<close>

text \<open>
  A row of the table \<open>jobs\<close>. \<open>result_url\<close> holds what the poll extracted, \<open>PNone\<close> for
  SQL \<open>NULL\<close>. The columns \<open>created_at\<close> and \<open>updated_at\<close> are filled by the database
  server's clock and read by no operation; they are left out.
\<close>

record job =
  id' :: int
  prompt :: string
  image_url :: "string option"
  result_url :: pyval
  status :: string
  application :: "string option"
  fal_request_id :: "string option"
  owner_id :: int
  strength :: "real option"

record user =
  user_id :: int
  email :: string

text \<open>
  The table is the list of its rows in insertion order. \<open>id\<close> is the primary key: the
  database keeps the ids of a table distinct.
\<close>

definition primary_key :: "job list \<Rightarrow> bool" where
  "primary_key db = distinct (map id' db)"

text \<open>\<open>db.commit()\<close> after attribute assignments on a loaded row: \<open>UPDATE jobs ... WHERE id = ?\<close>.\<close>

definition commit_job :: "job list \<Rightarrow> job \<Rightarrow> job list" where
  "commit_job db j = map (\<lambda>r. if id' r = id' j then j else r) db"

text \<open>
  \<open>result_url\<close> is a \<open>String\<close> column: it binds \<open>None\<close> or a \<open>str\<close>. The \<open>UPDATE\<close> of a
  commit carries the columns whose value changed; when the changed \<open>result_url\<close> is
  anything else, \<open>db.commit()\<close> raises and the row stays as it was. (\<open>status\<close> is only ever
  assigned strings.)
\<close>

fun bindable :: "pyval \<Rightarrow> bool" where
  "bindable PNone = True"
| "bindable (PStr s) = True"
| "bindable v = False"

definition commit_raises :: "job \<Rightarrow> job \<Rightarrow> bool" where
  "commit_raises loaded changed =
     (result_url changed \<noteq> result_url loaded \<and> \<not> bindable (result_url changed))"

text \<open>
  \<open>db.add(new_job); db.commit(); db.refresh(new_job)\<close>: the row is appended under a fresh
  id, one more than the greatest id of the table (1 in an empty table). An attribute that
  is \<open>None\<close> is left out of the \<open>INSERT\<close>, so the column default of \<open>strength\<close>,
  \<open>default=0.7\<close>, takes the place of a \<open>None\<close>; the other columns given \<open>None\<close> here have
  no default.
\<close>

definition next_id :: "job list \<Rightarrow> int" where
  "next_id db = fold max (map id' db) 0 + 1"

definition add_job :: "job list \<Rightarrow> job \<Rightarrow> job list \<times> job" where
  "add_job db j =
     (let new_job = j\<lparr>id' := next_id db,
                       strength := (case strength j of None \<Rightarrow> Some 0.7 | Some s \<Rightarrow> Some s)\<rparr>
      in (db @ [new_job], new_job))"

section \<open>Responses (schemas.py)\<close>

text \<open>
  What a request to an endpoint comes to: the framework rejects its parameters before the
  function runs (HTTP 422), the function raises (HTTP 500), or it returns a response.
\<close>

datatype 'a outcome = Rejected | Raised exn | Returned 'a

record 'a BaseResponse =
  success :: bool
  message :: string
  data :: "'a option"

text \<open>The dictionary the status endpoint answers with; \<open>sd_result_url\<close> is an optional key.\<close>

record status_data =
  sd_job_id :: int
  sd_status :: string
  sd_fal_request_id :: "string option"
  sd_result_url :: "pyval option"

section \<open>The background monitor (main.py, update\_job\_status)\<close>

definition max_attempts :: nat where
  "max_attempts = 120"

text \<open>
  The body of the \<open>try\<close> of one iteration, against the external service as it is during
  that iteration. It returns the table, whether the loop is left by \<open>break\<close>, and the calls
  made. An exception anywhere in the body (\<open>job.application\<close> of a missing row, a poll that
  raises, a commit that raises) is caught by the \<open>except\<close> of the iteration: the table is
  as it was and the loop goes on.
\<close>

definition update_job_status_try ::
  "string option \<Rightarrow> fal_world \<Rightarrow> int \<Rightarrow> string \<Rightarrow> job list \<Rightarrow> job list \<times> bool \<times> event list" where
  "update_job_status_try FAL_API_KEY w job_id req db =
     (case find (\<lambda>j. id' j = job_id) db of
        None \<Rightarrow> (db, False, [])
      | Some job0 \<Rightarrow>
          (case fal_api_check_job_status FAL_API_KEY w req (application job0) of
             (Inl e, calls) \<Rightarrow> (db, False, calls)
           | (Inr status_result, calls) \<Rightarrow>
               (case find (\<lambda>j. id' j = job_id) db of
                  None \<Rightarrow> (db, False, calls)
                | Some job1 \<Rightarrow>
                    let job2 = job1\<lparr>status := sr_status status_result\<rparr>;
                        job3 = (if sr_status status_result = ''completed''
                                then job2\<lparr>result_url := sr_result_url status_result\<rparr>
                                else job2)
                    in if commit_raises job1 job3 then (db, False, calls)
                       else (commit_job db job3,
                             sr_status status_result \<in> set [''completed'', ''failed''],
                             calls))))"

text \<open>
  The \<open>while attempt < max_attempts\<close> loop. \<open>worlds k\<close> is the external service during
  attempt \<open>k\<close>. After an iteration that did not break, the task sleeps five seconds and
  counts the attempt.
\<close>

function update_job_status_loop ::
  "string option \<Rightarrow> (nat \<Rightarrow> fal_world) \<Rightarrow> int \<Rightarrow> string \<Rightarrow> job list \<Rightarrow> nat \<Rightarrow> event list
   \<Rightarrow> job list \<times> nat \<times> event list" where
  "update_job_status_loop FAL_API_KEY worlds job_id req db attempt trace =
     (if attempt < max_attempts then
        (let r = update_job_status_try FAL_API_KEY (worlds attempt) job_id req db
         in if fst (snd r) then (fst r, attempt, trace @ snd (snd r))
            else update_job_status_loop FAL_API_KEY worlds job_id req (fst r) (attempt + 1)
                   (trace @ snd (snd r) @ [Sleep 5]))
      else (db, attempt, trace))"
  by pat_completeness auto
termination
  by (relation "measure (\<lambda>(k, ws, i, r, db, attempt, trace). max_attempts - attempt)") auto

declare update_job_status_loop.simps [simp del]

text \<open>
  The task itself. Its parameters \<open>db\<close> and \<open>application\<close> are not read: every iteration
  opens a session of its own on the same database, and polls with the row's application.
  It returns the table, the attempts counted and the calls made.
\<close>

definition update_job_status ::
  "string option \<Rightarrow> (nat \<Rightarrow> fal_world) \<Rightarrow> int \<Rightarrow> string \<Rightarrow> job list \<Rightarrow> string option
   \<Rightarrow> job list \<times> nat \<times> event list" where
  "update_job_status FAL_API_KEY worlds job_id req db application_name =
     update_job_status_loop FAL_API_KEY worlds job_id req db 0 []"

section \<open>The endpoints (main.py)\<close>

subsection \<open>create\_job\<close>

text \<open>
  An uploaded file: its name (empty when the part has none), the content type the part
  declares (\<open>None\<close> when the part has no \<open>Content-Type\<close> header), and the bytes \<open>read()\<close>
  gives.
\<close>

record upload_file =
  filename :: string
  content_type :: "string option"
  file_bytes :: string

definition startswith :: "string \<Rightarrow> string \<Rightarrow> bool" where
  "startswith s p = (take (length p) s = p)"

text \<open>
  The first half of \<open>create_job\<close> comes to one of three ends: an early failure response
  with a message, an exception that no \<open>try\<close> encloses, or the pair
  \<open>(image_bytes, image_url)\<close> the second half works with.
\<close>

datatype validation =
    Failure string
  | Uncaught exn
  | Passed "string option" "string option"

text \<open>
  \<open>image_open\<close> stands for \<open>Image.open(...)\<close> followed by \<open>.size\<close> of the imaging library:
  an exception, or the width and height. \<open>image.content_type.startswith\<close> stands before the
  \<open>try\<close>: on a content type \<open>None\<close> it raises \<open>AttributeError\<close> to the framework.
\<close>

definition validate_image ::
  "(string \<Rightarrow> exn + nat \<times> nat) \<Rightarrow> upload_file option \<Rightarrow> validation" where
  "validate_image image_open img =
     (case img of
        None \<Rightarrow> Passed None None
      | Some f \<Rightarrow>
          if filename f = [] then Passed None None
          else
            (case content_type f of
               None \<Rightarrow>
                 Uncaught (Error ''AttributeError''
                            (CHR 0x27 # ''NoneType' object has no attribute 'startswith'' @ [CHR 0x27]))
             | Some ct \<Rightarrow>
                 if \<not> startswith ct ''image/'' then Failure ''File must be an image''
                 else
                   let image_bytes = file_bytes f in
                   if length image_bytes > 10 * 1024 * 1024 then Failure ''Image too large (max 10MB)''
                   else
                     (case image_open image_bytes of
                        Inl e \<Rightarrow> Failure (''Invalid image file: '' @ str_exn e)
                      | Inr (width, height) \<Rightarrow>
                          if width < 64 \<or> height < 64
                          then Failure ''Image too small (min 64x64 pixels)''
                          else if width > 4096 \<or> height > 4096
                          then Failure ''Image too large (max 4096x4096 pixels)''
                          else Passed (Some image_bytes) (Some (data_url image_bytes)))))"

text \<open>
  \<open>create_job\<close> gives what the request comes to (an exception raised to the framework or the
  response returned), the table, the calls made, and the background task it scheduled
  (job id, request id, application), if any.
\<close>

definition create_job ::
  "string option \<Rightarrow> (string \<Rightarrow> exn + nat \<times> nat) \<Rightarrow> fal_world \<Rightarrow> string \<Rightarrow> upload_file option \<Rightarrow> real
   \<Rightarrow> job list \<Rightarrow> user
   \<Rightarrow> job BaseResponse outcome \<times> job list \<times> event list \<times> (int \<times> string \<times> string option) option" where
  "create_job FAL_API_KEY image_open w prompt_text img strength_value db usr =
     (case validate_image image_open img of
        Failure msg \<Rightarrow> (Returned \<lparr>success = False, message = msg, data = None\<rparr>, db, [], None)
      | Uncaught e \<Rightarrow> (Raised e, db, [], None)
      | Passed image_bytes image_data_url \<Rightarrow>
          (case submit_fal_job FAL_API_KEY w prompt_text image_bytes of
             (Inl e, calls) \<Rightarrow>
               (Returned \<lparr>success = False, message = ''Failed to create job: '' @ str_exn e,
                          data = None\<rparr>,
                db, calls, None)
           | (Inr fal_response, calls) \<Rightarrow>
               let (db', new_job) =
                     add_job db
                       \<lparr>id' = 0,
                        prompt = prompt_text,
                        image_url = image_data_url,
                        result_url = PNone,
                        status = ''pending'',
                        application = Some (submit_application fal_response),
                        fal_request_id = Some (request_id fal_response),
                        owner_id = user_id usr,
                        strength = (if str_truthy image_bytes then Some strength_value else None)\<rparr>
               in (Returned \<lparr>success = True, message = ''Job created successfully'',
                             data = Some new_job\<rparr>,
                   db', calls,
                   Some (id' new_job, request_id fal_response, application new_job))))"

subsection \<open>check\_job\_status (the on-demand status check)\<close>

text \<open>The status and result the endpoint assigns to the row for a poll's answer.\<close>

definition reconcile :: "job \<Rightarrow> status_result \<Rightarrow> job" where
  "reconcile j status_result =
     (if sr_status status_result = ''completed'' then
        (let j1 = j\<lparr>status := ''completed'', result_url := sr_result_url status_result\<rparr>
         in if sr_result_url status_result = PNone then j1\<lparr>status := ''failed''\<rparr> else j1)
      else if sr_status status_result = ''failed'' then j\<lparr>status := ''failed''\<rparr>
      else if sr_status status_result = ''processing'' then j\<lparr>status := ''processing''\<rparr>
      else j)"

text \<open>
  The poll and the commit stand in one \<open>try\<close>. When the poll raises, nothing was assigned.
  When the commit raises, the table stays as it was and \<open>status_result\<close> is already set; the
  response then reads the job's id, status and request id, none of which the failed
  update had changed.
\<close>

definition check_job_status ::
  "string option \<Rightarrow> fal_world \<Rightarrow> int \<Rightarrow> job list \<Rightarrow> user
   \<Rightarrow> status_data BaseResponse \<times> job list \<times> event list" where
  "check_job_status FAL_API_KEY w job_id db usr =
     (case find (\<lambda>j. id' j = job_id \<and> owner_id j = user_id usr) db of
        None \<Rightarrow> (\<lparr>success = False, message = ''Job not found'', data = None\<rparr>, db, [])
      | Some job0 \<Rightarrow>
          let (job1, db', status_result, calls) =
                (if status job0 = ''completed'' \<and> str_truthy (fal_request_id job0) then
                   (case fal_api_check_job_status FAL_API_KEY w
                           (case fal_request_id job0 of Some r \<Rightarrow> r | None \<Rightarrow> [])
                           (application job0) of
                      (Inl e, calls) \<Rightarrow> (job0, db, None, calls)
                    | (Inr sr, calls) \<Rightarrow>
                        if commit_raises job0 (reconcile job0 sr)
                        then (reconcile job0 sr, db, Some sr, calls)
                        else (reconcile job0 sr, commit_job db (reconcile job0 sr), Some sr, calls))
                 else (job0, db, None, []))
          in (\<lparr>success = True, message = ''Job status retrieved successfully'',
               data = Some \<lparr>sd_job_id = id' job1,
                            sd_status = status job1,
                            sd_fal_request_id = fal_request_id job1,
                            sd_result_url =
                              (case status_result of
                                 None \<Rightarrow> None
                               | Some sr \<Rightarrow>
                                   if sr_result_url sr \<noteq> PNone then Some (sr_result_url sr)
                                   else None)\<rparr>\<rparr>,
              db', calls))"

subsection \<open>list\_jobs and get\_job\<close>

text \<open>\<open>ORDER BY id DESC\<close>.\<close>

definition order_by_id_desc :: "job list \<Rightarrow> job list" where
  "order_by_id_desc rows = sort_key (\<lambda>j. - id' j) rows"

text \<open>
  \<open>page\<close> is declared \<open>ge=1\<close> and \<open>limit\<close> \<open>ge=1, le=100\<close>: the framework rejects any
  other request before the function runs. \<open>OFFSET\<close> is bound as a 64-bit integer: a
  greater \<open>skip\<close> raises \<open>OverflowError\<close>.
\<close>

definition list_jobs :: "int \<Rightarrow> int \<Rightarrow> job list \<Rightarrow> user \<Rightarrow> job list BaseResponse outcome" where
  "list_jobs page limit db usr =
     (if page < 1 \<or> limit < 1 \<or> limit > 100 then Rejected
      else
        let skip = (page - 1) * limit in
        if skip > 9223372036854775807
        then Raised (Error ''OverflowError'' ''Python int too large to convert to SQLite INTEGER'')
        else
          let jobs = take (nat limit) (drop (nat skip)
                       (order_by_id_desc (filter (\<lambda>j. owner_id j = user_id usr) db)))
          in Returned \<lparr>success = True, message = ''Jobs retrieved successfully'', data = Some jobs\<rparr>)"

definition get_job :: "int \<Rightarrow> job list \<Rightarrow> user \<Rightarrow> job BaseResponse" where
  "get_job job_id db usr =
     (case find (\<lambda>j. id' j = job_id \<and> owner_id j = user_id usr) db of
        None \<Rightarrow> \<lparr>success = False, message = ''Job not found'', data = None\<rparr>
      | Some j \<Rightarrow> \<lparr>success = True, message = ''Job retrieved successfully'', data = Some j\<rparr>)"

section \<open>Observations on traces and example inputs\<close>





text \<open>Whether fetching the result and extracting its url raises.\<close>

definition result_unavailable :: "fal_world \<Rightarrow> string option \<Rightarrow> string \<Rightarrow> bool" where
  "result_unavailable w app req =
     (case fal_result w app req of
        Inl e \<Rightarrow> True
      | Inr result \<Rightarrow> (case result_url_of result of Inl e \<Rightarrow> True | Inr url \<Rightarrow> False))"

definition unreachable :: exn where
  "unreachable = Error ''ConnectionError'' ''service unreachable''"

definition out_jpeg :: pyval where
  "out_jpeg = PDict [(''images'', PList [PDict [(''url'', PStr ''https://cdn/out.jpeg'')]])]"

text \<open>The service cannot be reached at all.\<close>

definition world_down :: fal_world where
  "world_down = \<lparr>fal_submit = (\<lambda>endpoint arguments. Inl unreachable),
                  fal_status = (\<lambda>app req. Inl unreachable),
                  fal_result = (\<lambda>app req. Inl unreachable)\<rparr>"

text \<open>The status query fails, the result can be fetched.\<close>

definition world_status_down :: fal_world where
  "world_status_down = \<lparr>fal_submit = (\<lambda>endpoint arguments. Inl unreachable),
                         fal_status = (\<lambda>app req. Inl unreachable),
                         fal_result = (\<lambda>app req. Inr out_jpeg)\<rparr>"

text \<open>The job is done and its result holds an image.\<close>

definition world_done :: fal_world where
  "world_done = \<lparr>fal_submit = (\<lambda>endpoint arguments. Inr ''req-1''),
                  fal_status = (\<lambda>app req. Inr Completed),
                  fal_result = (\<lambda>app req. Inr out_jpeg)\<rparr>"

text \<open>The job is done and its result holds no image.\<close>

definition world_done_no_image :: fal_world where
  "world_done_no_image = \<lparr>fal_submit = (\<lambda>endpoint arguments. Inr ''req-1''),
                           fal_status = (\<lambda>app req. Inr Completed),
                           fal_result = (\<lambda>app req. Inr (PDict []))\<rparr>"


text \<open>The job is done and its result cannot be fetched.\<close>

definition world_done_no_result :: fal_world where
  "world_done_no_result = \<lparr>fal_submit = (\<lambda>endpoint arguments. Inr ''req-1''),
                            fal_status = (\<lambda>app req. Inr Completed),
                            fal_result = (\<lambda>app req. Inl unreachable)\<rparr>"


definition always :: "fal_world \<Rightarrow> nat \<Rightarrow> fal_world" where
  "always w k = w"

definition alice :: user where
  "alice = \<lparr>user_id = 7, email = ''alice@example.org''\<rparr>"

definition bob :: user where
  "bob = \<lparr>user_id = 8, email = ''bob@example.org''\<rparr>"

text \<open>The row \<open>create_job\<close> stores for Alice's first request, a prompt without image.\<close>

definition job1 :: job where
  "job1 = \<lparr>id' = 1, prompt = ''a red bicycle'', image_url = None, result_url = PNone,
           status = ''pending'', application = Some ''fal-ai/nano-banana'',
           fal_request_id = Some ''req-1'', owner_id = 7, strength = Some 0.7\<rparr>"


text \<open>Twenty-three jobs with the ids 1 to 23; job 5 is Bob's, the others are Alice's.\<close>

definition many_jobs :: "job list" where
  "many_jobs = map (\<lambda>i. job1\<lparr>id' := i, owner_id := (if i = 5 then 8 else 7)\<rparr>) [1..23]"

text \<open>
  A request that fails validation: it carries a named file whose content type is not an
  image type, or whose size exceeds 10MB, or which the imaging library cannot open, or
  whose pixel dimensions lie outside 64x64 to 4096x4096. (A part with no file name is
  not taken as an upload at all.)
\<close>

definition invalid_upload :: "(string \<Rightarrow> exn + nat \<times> nat) \<Rightarrow> upload_file option \<Rightarrow> bool" where
  "invalid_upload image_open img =
     (case img of
        None \<Rightarrow> False
      | Some f \<Rightarrow>
          filename f \<noteq> []
          \<and> ((case content_type f of None \<Rightarrow> True | Some ct \<Rightarrow> \<not> startswith ct ''image/'')
             \<or> length (file_bytes f) > 10 * 1024 * 1024
             \<or> (case image_open (file_bytes f) of
                   Inl e \<Rightarrow> True
                 | Inr (width, height) \<Rightarrow> width < 64 \<or> height < 64 \<or> width > 4096 \<or> height > 4096)))"

text \<open>A request that was answered with a success response.\<close>

definition succeeded :: "'a BaseResponse outcome \<Rightarrow> bool" where
  "succeeded out = (case out of Returned r \<Rightarrow> success r | Raised e \<Rightarrow> False | Rejected \<Rightarrow> False)"

definition open_512x512 :: "string \<Rightarrow> exn + nat \<times> nat" where
  "open_512x512 image_bytes = Inr (512, 512)"

text \<open>A named file in a part that has no \<open>Content-Type\<close> header.\<close>

definition untyped_upload :: upload_file where
  "untyped_upload = \<lparr>filename = ''bike.png'', content_type = None, file_bytes = ''PNG...''\<rparr>"



text \<open>
  What one iteration of the monitor commits to the row \<open>j\<close>: the status the poll reports,
  or nothing when the poll raises or the commit does (a \<open>completed\<close> report whose url is
  new to the row and is neither a string nor \<open>None\<close>).
\<close>

definition commit_report :: "string option \<Rightarrow> fal_world \<Rightarrow> string \<Rightarrow> job \<Rightarrow> string option" where
  "commit_report key w req j =
     (case fst (fal_api_check_job_status key w req (application j)) of
        Inl e \<Rightarrow> None
      | Inr status_result \<Rightarrow>
          if sr_status status_result = ''completed''
             \<and> sr_result_url status_result \<noteq> result_url j
             \<and> \<not> bindable (sr_result_url status_result)
          then None
          else Some (sr_status status_result))"




section \<open>The job store: queries and updates\<close>

lemma find_by_id:
  "primary_key db \<Longrightarrow> j \<in> set db \<Longrightarrow> find (\<lambda>r. id' r = id' j) db = Some j"
  unfolding primary_key_def by (induction db) (auto simp: image_iff)

lemma find_by_id_and_owner:
  "primary_key db \<Longrightarrow> j \<in> set db \<Longrightarrow>
   find (\<lambda>r. id' r = id' j \<and> owner_id r = uid) db = (if owner_id j = uid then Some j else None)"
  unfolding primary_key_def by (induction db) (auto simp: image_iff find_None_iff)

lemma find_commit_job:
  "find (\<lambda>r. id' r = i) db = Some j \<Longrightarrow> id' j' = i \<Longrightarrow>
   find (\<lambda>r. id' r = i) (commit_job db j') = Some j'"
  by (induction db) (auto simp: commit_job_def split: if_splits)

lemma find_owned_commit_job:
  "find (\<lambda>r. id' r = i \<and> owner_id r = uid) db = Some j \<Longrightarrow> id' j' = i \<Longrightarrow> owner_id j' = uid \<Longrightarrow>
   find (\<lambda>r. id' r = i \<and> owner_id r = uid) (commit_job db j') = Some j'"
  by (induction db) (auto simp: commit_job_def split: if_splits)

lemma ids_commit_job: "map id' (commit_job db j) = map id' db"
  by (induction db) (auto simp: commit_job_def)

lemma primary_key_commit_job: "primary_key (commit_job db j) = primary_key db"
  by (simp add: primary_key_def ids_commit_job)

lemma commit_job_twice: "commit_job (commit_job db j) j = commit_job db j"
  by (induction db) (auto simp: commit_job_def)

lemma commit_job_same:
  assumes "primary_key db" and "j \<in> set db"
  shows "commit_job db j = db"
proof -
  have "inj_on id' (set db)"
    using assms(1) by (simp add: primary_key_def distinct_map)
  then have "\<forall>r\<in>set db. id' r = id' j \<longrightarrow> r = j"
    using assms(2) by (auto dest: inj_onD)
  then show ?thesis
    unfolding commit_job_def by (intro map_idI) auto
qed

section \<open>The poll\<close>




lemma poll_completed_unavailable:
  "str_truthy key \<Longrightarrow> fal_status w app req = Inr Completed \<Longrightarrow> result_unavailable w app req \<Longrightarrow>
   \<exists>e. fst (fal_api_check_job_status key w req app) = Inr (completed_but_unavailable e)"
  by (auto simp: fal_api_check_job_status_def result_unavailable_def split: sum.splits)

lemma poll_both_fail:
  "str_truthy key \<Longrightarrow> fal_status w app req = Inl e \<Longrightarrow> result_unavailable w app req \<Longrightarrow>
   fst (fal_api_check_job_status key w req app) =
     Inr \<lparr>sr_status = ''pending'', sr_result_url = PNone,
          sr_other = [(''error'', PStr (''Unable to determine job status: '' @ str_exn e))]\<rparr>"
  by (auto simp: fal_api_check_job_status_def result_unavailable_def split: sum.splits)


lemma poll_url_only_when_completed:
  "fst (fal_api_check_job_status key w req app) = Inr sr \<Longrightarrow> sr_status sr \<noteq> ''completed'' \<Longrightarrow>
   sr_result_url sr = PNone"
  by (auto simp: fal_api_check_job_status_def completed_but_unavailable_def split: sum.splits fal_status.splits if_splits)

section \<open>The on-demand check\<close>

lemma reconcile_keeps:
  "id' (reconcile j sr) = id' j" "owner_id (reconcile j sr) = owner_id j"
  "fal_request_id (reconcile j sr) = fal_request_id j" "application (reconcile j sr) = application j"
  by (simp_all add: reconcile_def Let_def)

lemma reconcile_twice: "reconcile (reconcile j sr) sr = reconcile j sr"
  by (simp add: reconcile_def Let_def)



section \<open>Listing\<close>

lemma order_by_id_desc_set: "set (order_by_id_desc rows) = set rows"
  by (simp add: order_by_id_desc_def)

lemma order_by_id_desc_distinct: "distinct (order_by_id_desc rows) = distinct rows"
  by (simp add: order_by_id_desc_def)

lemma order_by_id_desc_length: "length (order_by_id_desc rows) = length rows"
  by (simp add: order_by_id_desc_def)

lemma order_by_id_desc_sorted:
  assumes "distinct (map id' rows)"
  shows "sorted_wrt (\<lambda>a b. id' b < id' a) (order_by_id_desc rows)"
proof -
  let ?ys = "order_by_id_desc rows"
  have inj: "inj_on id' (set rows)" and d: "distinct rows"
    using assms by (simp_all add: distinct_map)
  have "inj_on (\<lambda>j. - id' j) (set ?ys)"
    using inj by (auto simp: inj_on_def order_by_id_desc_set)
  then have "distinct (map (\<lambda>j. - id' j) ?ys)"
    using d by (simp add: distinct_map order_by_id_desc_distinct)
  moreover have "sorted (map (\<lambda>j. - id' j) ?ys)"
    by (simp add: order_by_id_desc_def)
  ultimately have "sorted_wrt (<) (map (\<lambda>j. - id' j) ?ys)"
    by (simp add: strict_sorted_iff)
  then show ?thesis
    by (simp add: sorted_wrt_map)
qed

lemma many_jobs_primary_key: "primary_key many_jobs"
  by (simp add: primary_key_def many_jobs_def comp_def)

lemma many_jobs_page1:
  "(case list_jobs 1 20 many_jobs alice of
      Returned r \<Rightarrow> map_option (map id') (data r)
    | Raised e \<Rightarrow> None
    | Rejected \<Rightarrow> None)
     = Some [23, 22, 21, 20, 19, 18, 17, 16, 15, 14, 13, 12, 11, 10, 9, 8, 7, 6, 4, 3]"
  by code_simp

lemma many_jobs_page2:
  "(case list_jobs 2 20 many_jobs alice of
      Returned r \<Rightarrow> map_option (map id') (data r)
    | Raised e \<Rightarrow> None
    | Rejected \<Rightarrow> None)
     = Some [2, 1]"
  by code_simp

section \<open>Job creation\<close>

lemma validate_image_failure: "validate_image image_open img = Failure msg \<Longrightarrow> msg \<noteq> []"
  by (auto simp: validate_image_def Let_def split: option.splits sum.splits prod.splits if_splits)

lemma validate_image_uncaught:
  "validate_image image_open img = Uncaught e \<Longrightarrow>
   \<exists>f. img = Some f \<and> filename f \<noteq> [] \<and> content_type f = None"
  by (auto simp: validate_image_def Let_def split: option.splits sum.splits prod.splits if_splits)

lemma validate_image_passed:
  "validate_image image_open img = Passed b u \<Longrightarrow> \<not> invalid_upload image_open img"
  by (auto simp: validate_image_def invalid_upload_def Let_def
           split: option.splits sum.splits prod.splits if_splits)

text \<open>
  What holds of every request to \<open>create_job\<close>: a request that fails validation or comes
  without credential causes no call; a request that does not succeed leaves the table as
  it was and schedules no monitor; a failure response carries no job and a non-empty
  message; the function raises only on a named file without content type.
\<close>

lemma create_job_no_partial_row:
  "case create_job key image_open w prompt_text img strength_value db usr of
     (out, db', calls, task) \<Rightarrow>
       (invalid_upload image_open img \<longrightarrow> calls = [] \<and> \<not> succeeded out)
     \<and> (\<not> str_truthy key \<longrightarrow> calls = [] \<and> \<not> succeeded out)
     \<and> (\<not> succeeded out \<longrightarrow> db' = db \<and> task = None)
     \<and> (\<forall>r. out = Returned r \<and> \<not> success r \<longrightarrow> data r = None \<and> message r \<noteq> [])
     \<and> (\<forall>e. out = Raised e \<longrightarrow> (\<exists>f. img = Some f \<and> filename f \<noteq> [] \<and> content_type f = None))"
proof (cases "validate_image image_open img")
  case (Failure msg)
  then show ?thesis
    using validate_image_failure [OF Failure] by (simp add: create_job_def succeeded_def)
next
  case (Uncaught e)
  then show ?thesis
    using validate_image_uncaught [OF Uncaught] by (simp add: create_job_def succeeded_def)
next
  case (Passed b u)
  obtain res calls where s: "submit_fal_job key w prompt_text b = (res, calls)"
    by (cases "submit_fal_job key w prompt_text b")
  have nokey: "\<not> str_truthy key \<Longrightarrow> isl res \<and> calls = []"
    using s by (auto simp: submit_fal_job_def)
  show ?thesis
  proof (cases res)
    case (Inl e)
    then show ?thesis
      using Passed s nokey validate_image_passed [OF Passed]
      by (simp add: create_job_def succeeded_def)
  next
    case (Inr fal_response)
    then show ?thesis
      using Passed s nokey validate_image_passed [OF Passed]
      by (auto simp: create_job_def succeeded_def add_job_def Let_def)
  qed
qed

section \<open>The monitor's loop\<close>

lemma commit_report_status [simp]:
  "commit_report key w req (j\<lparr>status := s\<rparr>) = commit_report key w req j"
  by (simp add: commit_report_def split: sum.splits)










section \<open>The claims\<close>

text \<open>
  C2, as the code has it. Without a configured credential the poll raises the service-level
  \<open>HTTPException\<close> 500 before any request. With a credential it never raises: when the
  status query fails it fetches the result directly; if the fetch and the extraction of the
  url succeed it reports \<open>completed\<close> with the extracted url (which is \<open>None\<close> for a
  result without images), and if they fail it reports \<open>pending\<close>, a non-terminal status
  (the code has no status \<open>unknown\<close>).
\<close>

theorem poll_status_fallback:
  "(\<not> str_truthy key \<longrightarrow>
      fal_api_check_job_status key w req app =
        (Inl (HTTPException 500 ''FAL API key not configured''), [PollStatus req app]))
   \<and> (str_truthy key \<longrightarrow>
        (\<exists>sr. fst (fal_api_check_job_status key w req app) = Inr sr
           \<and> (\<forall>e. fal_status w app req = Inl e \<longrightarrow>
                 snd (fal_api_check_job_status key w req app)
                   = [PollStatus req app, FalStatus app req, FalResult app req]
                 \<and> (case fal_result w app req of
                      Inl e' \<Rightarrow> sr_status sr = ''pending'' \<and> sr_result_url sr = PNone
                    | Inr result \<Rightarrow>
                        (case result_url_of result of
                           Inl e' \<Rightarrow> sr_status sr = ''pending'' \<and> sr_result_url sr = PNone
                         | Inr url \<Rightarrow> sr_status sr = ''completed'' \<and> sr_result_url sr = url)))))
   \<and> ''pending'' \<notin> set [''completed'', ''failed'']"
  by (auto simp: fal_api_check_job_status_def split: sum.splits fal_status.splits)

theorem poll_status_fallback_witness:
  "fal_api_check_job_status None world_down ''req-1'' (Some ''fal-ai/nano-banana'') =
        (Inl (HTTPException 500 ''FAL API key not configured''),
         [PollStatus ''req-1'' (Some ''fal-ai/nano-banana'')])
   \<and> (\<exists>sr. fst (fal_api_check_job_status (Some ''key'') world_status_down ''req-1''
                   (Some ''fal-ai/nano-banana'')) = Inr sr
        \<and> sr_status sr = ''completed'' \<and> sr_result_url sr = PStr ''https://cdn/out.jpeg'')
   \<and> (\<exists>sr. fst (fal_api_check_job_status (Some ''key'') world_down ''req-1''
                   (Some ''fal-ai/nano-banana'')) = Inr sr
        \<and> sr_status sr = ''pending'')"
  using poll_status_fallback [of None world_down "''req-1''" "Some ''fal-ai/nano-banana''"]
        poll_status_fallback [of "Some ''key''" world_status_down "''req-1''" "Some ''fal-ai/nano-banana''"]
        poll_status_fallback [of "Some ''key''" world_down "''req-1''" "Some ''fal-ai/nano-banana''"]
  by (auto simp: world_down_def world_status_down_def unreachable_def result_url_of_def out_jpeg_def)

text \<open>
  C2 as stated fails: with no credential configured the poll raises to its caller, and
  when the status query and the fallback both fail it reports \<open>pending\<close>, not \<open>unknown\<close>.
\<close>

theorem poll_status_raises_counterexample:
  "fst (fal_api_check_job_status None world_down ''req-1'' (Some ''fal-ai/nano-banana''))
     = Inl (HTTPException 500 ''FAL API key not configured'')
   \<and> map_sum id sr_status
        (fst (fal_api_check_job_status (Some ''key'') world_down ''req-1'' (Some ''fal-ai/nano-banana'')))
     = Inr ''pending''"
  by (simp add: fal_api_check_job_status_def world_down_def unreachable_def)

text \<open>
  C7. When the status query reports \<open>Completed\<close> and fetching the result or extracting its
  url raises, the poll reports \<open>failed\<close>; the monitor's iteration records \<open>failed\<close> on the
  job's row and leaves the loop, and the on-demand check of a job stored as \<open>completed\<close>
  records and returns \<open>failed\<close>.
\<close>

theorem completed_without_result_is_failed:
  assumes "str_truthy key" and "primary_key db" and "j \<in> set db"
    and "fal_status w (application j) req = Inr Completed"
    and "result_unavailable w (application j) req"
  shows "(\<exists>sr. fst (fal_api_check_job_status key w req (application j)) = Inr sr
            \<and> sr_status sr = ''failed'' \<and> sr_result_url sr = PNone)
       \<and> (case update_job_status_try key w (id' j) req db of
            (db', brk, calls) \<Rightarrow>
              find (\<lambda>r. id' r = id' j) db' = Some (j\<lparr>status := ''failed''\<rparr>) \<and> brk)
       \<and> (owner_id j = user_id usr \<and> status j = ''completed'' \<and> fal_request_id j = Some req
             \<and> req \<noteq> [] \<longrightarrow>
           (case check_job_status key w (id' j) db usr of
              (response, db', calls) \<Rightarrow>
                find (\<lambda>r. id' r = id' j) db' = Some (j\<lparr>status := ''failed''\<rparr>)
                \<and> success response
                \<and> map_option sd_status (data response) = Some ''failed''))"
proof -
  from poll_completed_unavailable [OF assms(1,4,5)] obtain e
    where poll: "fst (fal_api_check_job_status key w req (application j))
                   = Inr (completed_but_unavailable e)" ..
  have found: "find (\<lambda>r. id' r = id' j) db = Some j"
    by (rule find_by_id [OF assms(2,3)])
  have a: "\<exists>sr. fst (fal_api_check_job_status key w req (application j)) = Inr sr
            \<and> sr_status sr = ''failed'' \<and> sr_result_url sr = PNone"
    using poll by (simp add: completed_but_unavailable_def)
  have b: "case update_job_status_try key w (id' j) req db of
            (db', brk, calls) \<Rightarrow>
              find (\<lambda>r. id' r = id' j) db' = Some (j\<lparr>status := ''failed''\<rparr>) \<and> brk"
    using poll found
    by (cases "fal_api_check_job_status key w req (application j)")
       (simp add: update_job_status_try_def completed_but_unavailable_def find_commit_job commit_raises_def)
  have c: "case check_job_status key w (id' j) db usr of
              (response, db', calls) \<Rightarrow>
                find (\<lambda>r. id' r = id' j) db' = Some (j\<lparr>status := ''failed''\<rparr>)
                \<and> success response
                \<and> map_option sd_status (data response) = Some ''failed''"
    if "owner_id j = user_id usr" "status j = ''completed''" "fal_request_id j = Some req" "req \<noteq> []"
    using poll found that find_by_id_and_owner [OF assms(2,3), of "user_id usr"]
    by (cases "fal_api_check_job_status key w req (application j)")
       (simp add: check_job_status_def completed_but_unavailable_def reconcile_def find_commit_job
          commit_raises_def)
  show ?thesis
    using a b c by simp
qed

theorem completed_without_result_is_failed_witness:
  "(case update_job_status_try (Some ''key'') world_done_no_result 1 ''req-1'' [job1] of
      (db', brk, calls) \<Rightarrow> find (\<lambda>r. id' r = 1) db' = Some (job1\<lparr>status := ''failed''\<rparr>) \<and> brk)
   \<and> (case check_job_status (Some ''key'') world_done_no_result 1
             [job1\<lparr>status := ''completed'', result_url := PStr ''https://cdn/out.jpeg''\<rparr>] alice of
        (response, db', calls) \<Rightarrow>
          find (\<lambda>r. id' r = 1) db'
            = Some (job1\<lparr>status := ''failed'', result_url := PStr ''https://cdn/out.jpeg''\<rparr>)
          \<and> success response
          \<and> map_option sd_status (data response) = Some ''failed'')"
proof -
  have w: "fal_status world_done_no_result a ''req-1'' = Inr Completed"
          "result_unavailable world_done_no_result a ''req-1''" for a
    by (simp_all add: world_done_no_result_def result_unavailable_def)
  have pk: "primary_key [j]" for j
    by (simp add: primary_key_def)
  have "case update_job_status_try (Some ''key'') world_done_no_result 1 ''req-1'' [job1] of
      (db', brk, calls) \<Rightarrow> find (\<lambda>r. id' r = 1) db' = Some (job1\<lparr>status := ''failed''\<rparr>) \<and> brk"
    using completed_without_result_is_failed
            [of "Some ''key''" "[job1]" job1 world_done_no_result "''req-1''" alice] w pk
    by (simp add: job1_def)
  moreover have "case check_job_status (Some ''key'') world_done_no_result 1
             [job1\<lparr>status := ''completed'', result_url := PStr ''https://cdn/out.jpeg''\<rparr>] alice of
        (response, db', calls) \<Rightarrow>
          find (\<lambda>r. id' r = 1) db'
            = Some (job1\<lparr>status := ''failed'', result_url := PStr ''https://cdn/out.jpeg''\<rparr>)
          \<and> success response
          \<and> map_option sd_status (data response) = Some ''failed''"
    using completed_without_result_is_failed
            [of "Some ''key''" "[job1\<lparr>status := ''completed'', result_url := PStr ''https://cdn/out.jpeg''\<rparr>]"
                "job1\<lparr>status := ''completed'', result_url := PStr ''https://cdn/out.jpeg''\<rparr>"
                world_done_no_result "''req-1''" alice] w pk
    by (simp add: job1_def alice_def)
  ultimately show ?thesis by simp
qed

text \<open>
  C10. When the status query and the fallback result fetch both fail, the poll returns
  \<open>pending\<close>, and the monitor's iteration writes \<open>pending\<close> to the job's row whatever its
  stored status was, and goes on polling.
\<close>

theorem both_fail_stores_pending:
  assumes "str_truthy key" and "primary_key db" and "j \<in> set db"
    and "fal_status w (application j) req = Inl e"
    and "result_unavailable w (application j) req"
  shows "(\<exists>sr. fst (fal_api_check_job_status key w req (application j)) = Inr sr
            \<and> sr_status sr = ''pending'')
       \<and> (case update_job_status_try key w (id' j) req db of
            (db', brk, calls) \<Rightarrow>
              find (\<lambda>r. id' r = id' j) db' = Some (j\<lparr>status := ''pending''\<rparr>) \<and> \<not> brk)"
  using poll_both_fail [OF assms(1,4,5)] find_by_id [OF assms(2,3)]
  by (cases "fal_api_check_job_status key w req (application j)")
     (simp add: update_job_status_try_def find_commit_job commit_raises_def)

theorem both_fail_stores_pending_witness:
  "case update_job_status_try (Some ''key'') world_down 1 ''req-1'' [job1\<lparr>status := ''processing''\<rparr>] of
      (db', brk, calls) \<Rightarrow>
        find (\<lambda>r. id' r = 1) db' = Some (job1\<lparr>status := ''pending''\<rparr>) \<and> \<not> brk"
proof -
  have "fal_status world_down (application (job1\<lparr>status := ''processing''\<rparr>)) ''req-1'' = Inl unreachable"
    and "result_unavailable world_down (application (job1\<lparr>status := ''processing''\<rparr>)) ''req-1''"
    and "primary_key [job1\<lparr>status := ''processing''\<rparr>]"
    by (simp_all add: world_down_def result_unavailable_def primary_key_def)
  then show ?thesis
    using both_fail_stores_pending
            [of "Some ''key''" "[job1\<lparr>status := ''processing''\<rparr>]" "job1\<lparr>status := ''processing''\<rparr>"
                world_down "''req-1''" unreachable]
    by (simp add: job1_def)
qed




text \<open>
  C6. A job of the table that the requesting user does not own is answered exactly as an
  id with no row: \<open>get_job\<close> and the status check return the same not-found response,
  and the status check makes no call and leaves the table as it is. Whatever the id, a job
  these reads return is a row of the table owned by the requesting user.
\<close>

theorem owner_scoped_reads:
  assumes "primary_key db" and "j \<in> set db" and "owner_id j \<noteq> user_id usr"
    and "missing \<notin> set (map id' db)"
  shows "get_job (id' j) db usr = \<lparr>success = False, message = ''Job not found'', data = None\<rparr>
       \<and> get_job missing db usr = get_job (id' j) db usr
       \<and> check_job_status key w (id' j) db usr
           = (\<lparr>success = False, message = ''Job not found'', data = None\<rparr>, db, [])
       \<and> check_job_status key w missing db usr = check_job_status key w (id' j) db usr
       \<and> (\<forall>i r. data (get_job i db usr) = Some r \<longrightarrow> r \<in> set db \<and> id' r = i \<and> owner_id r = user_id usr)
       \<and> (\<forall>i d. data (fst (check_job_status key w i db usr)) = Some d \<longrightarrow>
             sd_job_id d = i \<and> (\<exists>r\<in>set db. id' r = i \<and> owner_id r = user_id usr))"
proof -
  have none: "find (\<lambda>r. id' r = id' j \<and> owner_id r = user_id usr) db = None"
    using find_by_id_and_owner [OF assms(1,2)] assms(3) by simp
  have none': "find (\<lambda>r. id' r = missing \<and> owner_id r = user_id usr) db = None"
    using assms(4) by (auto simp: find_None_iff)
  have a: "data (get_job i db usr) = Some r \<Longrightarrow> r \<in> set db \<and> id' r = i \<and> owner_id r = user_id usr" for i r
    by (auto simp: get_job_def find_Some_iff split: option.splits)
  have b: "sd_job_id d = i \<and> (\<exists>r\<in>set db. id' r = i \<and> owner_id r = user_id usr)"
    if d: "data (fst (check_job_status key w i db usr)) = Some d" for i d
  proof (cases "find (\<lambda>r. id' r = i \<and> owner_id r = user_id usr) db")
    case None
    then show ?thesis using d by (simp add: check_job_status_def)
  next
    case (Some r)
    then have r: "r \<in> set db" "id' r = i" "owner_id r = user_id usr"
      by (auto simp: find_Some_iff)
    have "sd_job_id d = id' r"
      using d Some
      by (cases "fal_api_check_job_status key w (case fal_request_id r of Some q \<Rightarrow> q | None \<Rightarrow> [])
                   (application r)"; cases "fst (fal_api_check_job_status key w
                   (case fal_request_id r of Some q \<Rightarrow> q | None \<Rightarrow> []) (application r))")
         (auto simp: check_job_status_def reconcile_keeps split: if_splits)
    then show ?thesis using r by auto
  qed
  have g1: "get_job (id' j) db usr = \<lparr>success = False, message = ''Job not found'', data = None\<rparr>"
    using none by (simp add: get_job_def)
  have g2: "get_job missing db usr = get_job (id' j) db usr"
    using none none' by (simp add: get_job_def)
  have c1: "check_job_status key w (id' j) db usr
              = (\<lparr>success = False, message = ''Job not found'', data = None\<rparr>, db, [])"
    using none by (simp add: check_job_status_def)
  have c2: "check_job_status key w missing db usr = check_job_status key w (id' j) db usr"
    using none none' by (simp add: check_job_status_def)
  have a': "\<forall>i r. data (get_job i db usr) = Some r \<longrightarrow> r \<in> set db \<and> id' r = i \<and> owner_id r = user_id usr"
    using a by blast
  have b': "\<forall>i d. data (fst (check_job_status key w i db usr)) = Some d \<longrightarrow>
             sd_job_id d = i \<and> (\<exists>r\<in>set db. id' r = i \<and> owner_id r = user_id usr)"
    using b by blast
  show ?thesis
    by (rule conjI [OF g1 conjI [OF g2 conjI [OF c1 conjI [OF c2 conjI [OF a' b']]]]])
qed

theorem owner_scoped_reads_witness:
  "get_job 1 [job1] bob = \<lparr>success = False, message = ''Job not found'', data = None\<rparr>
   \<and> get_job 2 [job1] bob = get_job 1 [job1] bob
   \<and> check_job_status (Some ''key'') world_done 1 [job1] bob
        = (\<lparr>success = False, message = ''Job not found'', data = None\<rparr>, [job1], [])
   \<and> check_job_status (Some ''key'') world_done 2 [job1] bob
        = check_job_status (Some ''key'') world_done 1 [job1] bob
   \<and> data (get_job 1 [job1] alice) = Some job1"
proof -
  have "primary_key [job1]" and "job1 \<in> set [job1]" and "owner_id job1 \<noteq> user_id bob"
    and "2 \<notin> set (map id' [job1])" and "id' job1 = 1"
    by (simp_all add: primary_key_def job1_def bob_def)
  then show ?thesis
    using owner_scoped_reads [of "[job1]" job1 bob 2 "Some ''key''" world_done]
    by (simp add: get_job_def job1_def alice_def)
qed

text \<open>
  C8. Two on-demand status checks in a row against the same state of the external service:
  the second returns the response of the first and leaves the table as the first left it.
\<close>

theorem on_demand_check_idempotent:
  "case check_job_status key w i db usr of
     (response1, db1, calls1) \<Rightarrow>
       (case check_job_status key w i db1 usr of
          (response2, db2, calls2) \<Rightarrow> response2 = response1 \<and> db2 = db1)"
proof (cases "find (\<lambda>r. id' r = i \<and> owner_id r = user_id usr) db")
  case None
  then show ?thesis by (simp add: check_job_status_def)
next
  case (Some j)
  then have j: "id' j = i" "owner_id j = user_id usr"
    by (auto simp: find_Some_iff)
  show ?thesis
  proof (cases "status j = ''completed'' \<and> str_truthy (fal_request_id j)")
    case False
    then show ?thesis using Some by (auto simp: check_job_status_def)
  next
    case True
    then obtain req where req: "fal_request_id j = Some req" "req \<noteq> []"
      by (cases "fal_request_id j") auto
    obtain res calls where poll: "fal_api_check_job_status key w req (application j) = (res, calls)"
      by (cases "fal_api_check_job_status key w req (application j)")
    show ?thesis
    proof (cases res)
      case (Inl e)
      then show ?thesis
        using True req poll Some by (simp add: check_job_status_def)
    next
      case (Inr sr)
      let ?j' = "reconcile j sr"
      show ?thesis
      proof (cases "commit_raises j ?j'")
        case True
        then show ?thesis
          using \<open>status j = ''completed'' \<and> str_truthy (fal_request_id j)\<close> req poll Some Inr
          by (simp add: check_job_status_def)
      next
        case False
        have first: "check_job_status key w i db usr =
            (\<lparr>success = True, message = ''Job status retrieved successfully'',
               data = Some \<lparr>sd_job_id = id' ?j', sd_status = status ?j',
                           sd_fal_request_id = fal_request_id ?j',
                           sd_result_url = (if sr_result_url sr \<noteq> PNone then Some (sr_result_url sr) else None)\<rparr>\<rparr>,
             commit_job db ?j', calls)"
          using True req poll Some Inr False by (simp add: check_job_status_def)
        have found': "find (\<lambda>r. id' r = i \<and> owner_id r = user_id usr) (commit_job db ?j') = Some ?j'"
          using Some j by (simp add: find_owned_commit_job reconcile_keeps)
        have url: "status ?j' \<noteq> ''completed'' \<Longrightarrow> sr_result_url sr = PNone"
          using poll_url_only_when_completed [of key w req "application j" sr] poll Inr True
          by (auto simp: reconcile_def Let_def split: if_splits)
        have second: "check_job_status key w i (commit_job db ?j') usr =
            (\<lparr>success = True, message = ''Job status retrieved successfully'',
               data = Some \<lparr>sd_job_id = id' ?j', sd_status = status ?j',
                           sd_fal_request_id = fal_request_id ?j',
                           sd_result_url = (if sr_result_url sr \<noteq> PNone then Some (sr_result_url sr) else None)\<rparr>\<rparr>,
             commit_job db ?j', if status ?j' = ''completed'' then calls else [])"
          using found' req poll Inr url
          by (simp add: check_job_status_def reconcile_keeps reconcile_twice commit_job_twice
                commit_raises_def)
        show ?thesis
          by (simp add: first second)
      qed
    qed
  qed
qed

theorem on_demand_check_idempotent_witness:
  "case check_job_status (Some ''key'') world_done_no_image 1
          [job1\<lparr>status := ''completed'', result_url := PStr ''https://cdn/out.jpeg''\<rparr>] alice of
     (response1, db1, calls1) \<Rightarrow>
       (case check_job_status (Some ''key'') world_done_no_image 1 db1 alice of
          (response2, db2, calls2) \<Rightarrow> response2 = response1 \<and> db2 = db1)"
  by (rule on_demand_check_idempotent)

text \<open>
  C9. On a table with distinct ids, let \<open>mine\<close> be the requesting user's jobs in descending
  order of id (the newest first: ids are handed out in increasing order). Page 1 with limit
  20 is the first twenty of \<open>mine\<close> and page 2 the next twenty: together they are the first
  forty, they share no job, they are in descending order of id, and every job in them is a
  row of the table owned by the requesting user.
\<close>

theorem list_jobs_pages:
  assumes "primary_key db"
  shows "\<exists>mine page1 page2.
           set mine = {j \<in> set db. owner_id j = user_id usr}
         \<and> distinct mine
         \<and> sorted_wrt (\<lambda>a b. id' b < id' a) mine
         \<and> list_jobs 1 20 db usr
              = Returned \<lparr>success = True, message = ''Jobs retrieved successfully'', data = Some page1\<rparr>
         \<and> list_jobs 2 20 db usr
              = Returned \<lparr>success = True, message = ''Jobs retrieved successfully'', data = Some page2\<rparr>
         \<and> page1 = take 20 mine
         \<and> page2 = take 20 (drop 20 mine)
         \<and> page1 @ page2 = take 40 mine
         \<and> set page1 \<inter> set page2 = {}
         \<and> sorted_wrt (\<lambda>a b. id' b < id' a) (page1 @ page2)
         \<and> (\<forall>j\<in>set (page1 @ page2). j \<in> set db \<and> owner_id j = user_id usr)"
proof -
  let ?own = "filter (\<lambda>j. owner_id j = user_id usr) db"
  let ?mine = "order_by_id_desc ?own"
  have d: "distinct (map id' ?own)"
    using assms by (simp add: primary_key_def distinct_map_filter)
  then have dm: "distinct ?mine"
    by (simp add: order_by_id_desc_distinct distinct_map)
  have s: "sorted_wrt (\<lambda>a b. id' b < id' a) ?mine"
    by (rule order_by_id_desc_sorted [OF d])
  have st: "set ?mine = {j \<in> set db. owner_id j = user_id usr}"
    by (auto simp: order_by_id_desc_set)
  have cat: "take 20 ?mine @ take 20 (drop 20 ?mine) = take 40 ?mine"
    using take_add [of 20 20 ?mine] by simp
  have "set (take 20 ?mine) \<inter> set (drop 20 ?mine) = {}"
    by (rule set_take_disj_set_drop_if_distinct [OF dm]) simp
  then have disj: "set (take 20 ?mine) \<inter> set (take 20 (drop 20 ?mine)) = {}"
    using set_take_subset [of 20 "drop 20 ?mine"] by blast
  have s2: "sorted_wrt (\<lambda>a b. id' b < id' a) (take 20 ?mine @ take 20 (drop 20 ?mine))"
    unfolding cat using s by (rule sorted_wrt_take)
  have own: "\<forall>j\<in>set (take 20 ?mine @ take 20 (drop 20 ?mine)). j \<in> set db \<and> owner_id j = user_id usr"
    unfolding cat using st set_take_subset [of 40 ?mine] by blast
  have l1: "list_jobs 1 20 db usr
      = Returned \<lparr>success = True, message = ''Jobs retrieved successfully'', data = Some (take 20 ?mine)\<rparr>"
    by (simp add: list_jobs_def)
  have l2: "list_jobs 2 20 db usr
      = Returned \<lparr>success = True, message = ''Jobs retrieved successfully'',
              data = Some (take 20 (drop 20 ?mine))\<rparr>"
    by (simp add: list_jobs_def)
  show ?thesis
    using st dm s l1 l2 cat disj s2 own by blast
qed

theorem list_jobs_pages_witness:
  "primary_key many_jobs
   \<and> (\<exists>page1 page2.
         list_jobs 1 20 many_jobs alice
           = Returned \<lparr>success = True, message = ''Jobs retrieved successfully'', data = Some page1\<rparr>
       \<and> list_jobs 2 20 many_jobs alice
           = Returned \<lparr>success = True, message = ''Jobs retrieved successfully'', data = Some page2\<rparr>
       \<and> map id' page1 = [23, 22, 21, 20, 19, 18, 17, 16, 15, 14, 13, 12, 11, 10, 9, 8, 7, 6, 4, 3]
       \<and> map id' page2 = [2, 1]
       \<and> set page1 \<inter> set page2 = {}
       \<and> sorted_wrt (\<lambda>a b. id' b < id' a) (page1 @ page2))"
proof -
  from list_jobs_pages [OF many_jobs_primary_key, of alice]
  obtain page1 page2 where
    p: "list_jobs 1 20 many_jobs alice
          = Returned \<lparr>success = True, message = ''Jobs retrieved successfully'', data = Some page1\<rparr>"
       "list_jobs 2 20 many_jobs alice
          = Returned \<lparr>success = True, message = ''Jobs retrieved successfully'', data = Some page2\<rparr>"
       "set page1 \<inter> set page2 = {}"
       "sorted_wrt (\<lambda>a b. id' b < id' a) (page1 @ page2)"
    by blast
  have "map id' page1 = [23, 22, 21, 20, 19, 18, 17, 16, 15, 14, 13, 12, 11, 10, 9, 8, 7, 6, 4, 3]"
    using many_jobs_page1 p(1) by simp
  moreover have "map id' page2 = [2, 1]"
    using many_jobs_page2 p(2) by simp
  ultimately show ?thesis
    using p many_jobs_primary_key by simp
qed

text \<open>
  C5 fails on a named file whose part has no \<open>Content-Type\<close> header. The content type is
  \<open>None\<close>, \<open>image.content_type.startswith\<close> raises \<open>AttributeError\<close> before the first
  \<open>try\<close>, and the request ends in an exception instead of a failure response; no call is
  made and no row is created. The same file declared as \<open>text/plain\<close> is answered with
  the failure response the validation is written to give.
\<close>

theorem create_job_raises_on_untyped_upload:
  "create_job (Some ''key'') open_512x512 world_done ''a red bicycle'' (Some untyped_upload) 0.7 [job1] alice
     = (Raised (Error ''AttributeError''
                  (CHR 0x27 # ''NoneType' object has no attribute 'startswith'' @ [CHR 0x27])),
        [job1], [], None)
   \<and> create_job (Some ''key'') open_512x512 world_done ''a red bicycle''
        (Some (untyped_upload\<lparr>content_type := Some ''text/plain''\<rparr>)) 0.7 [job1] alice
     = (Returned \<lparr>success = False, message = ''File must be an image'', data = None\<rparr>,
        [job1], [], None)"
  by (simp add: create_job_def validate_image_def untyped_upload_def startswith_def)




text \<open>
  C1 fails on the monitor. A job is created by \<open>create_job\<close>; the external service then
  reports \<open>Completed\<close> with a result that holds no image. The poll answers \<open>completed\<close>
  with the url \<open>None\<close>, and the monitor stores \<open>completed\<close> with a null \<open>result_url\<close>
  and stops.
\<close>

theorem monitor_stores_completed_without_result:
  "(case create_job (Some ''key'') open_512x512 world_done ''a red bicycle'' None 0.7 [] alice of
      (response, db', calls, task) \<Rightarrow>
        db' = [job1] \<and> task = Some (1, ''req-1'', Some ''fal-ai/nano-banana''))
   \<and> update_job_status (Some ''key'') (always world_done_no_image) 1 ''req-1'' [job1]
         (Some ''fal-ai/nano-banana'')
       = ([job1\<lparr>status := ''completed''\<rparr>], 0,
          [PollStatus ''req-1'' (Some ''fal-ai/nano-banana''),
           FalStatus (Some ''fal-ai/nano-banana'') ''req-1'',
           FalResult (Some ''fal-ai/nano-banana'') ''req-1''])
   \<and> status (job1\<lparr>status := ''completed''\<rparr>) = ''completed''
   \<and> result_url (job1\<lparr>status := ''completed''\<rparr>) = PNone"
  by (simp add: create_job_def validate_image_def submit_fal_job_def add_job_def next_id_def
        world_done_def alice_def job1_def update_job_status_def
        update_job_status_loop.simps [of _ _ _ _ _ 0] max_attempts_def update_job_status_try_def
        fal_api_check_job_status_def always_def world_done_no_image_def result_url_of_def
        description_of_def commit_job_def commit_raises_def Let_def)

end
